theory Spec2Isabelle
  imports Main
begin

section \<open>Tunes: searching and displaying tunes from thesession.org\<close>

text \<open>
  A shallow embedding of \<^verbatim>\<open>src/tunes.py\<close>. Python strings are modelled as
  \<^typ>\<open>string\<close>, each \<^typ>\<open>char\<close> standing for one code point below 256. Everything the
  script gets from outside is a parameter of the model: the catalog site is a state holding
  the response to each URL and the list of the URLs requested, the markup library is a
  function from the response body to an error or a tree, and the picker is the result value
  of each \<^verbatim>\<open>subprocess.run\<close>. Exceptions are values of the type \<open>error\<close>.
\<close>

subsection \<open>Exceptions\<close>

datatype error =
    HTTPError int
  | ParserError
  | IndexError
  | ValueError
  | SearchException string
  | SystemExit int

subsection \<open>Strings and lists as Python has them\<close>

text \<open>
  \<^verbatim>\<open>xs[i]\<close>: an index from \<open>0\<close> up to the length reads from the front, one from
  \<open>-1\<close> down to minus the length reads from the back, any other raises \<^verbatim>\<open>IndexError\<close>.
\<close>

definition py_index :: "'a list \<Rightarrow> int \<Rightarrow> error + 'a" where
  "py_index xs i =
     (if 0 \<le> i \<and> i < int (length xs) then Inr (xs ! nat i)
      else if i < 0 \<and> - int (length xs) \<le> i then Inr (xs ! nat (int (length xs) + i))
      else Inl IndexError)"

text \<open>\<^verbatim>\<open>s.split(sep)\<close> for a one-character separator: never the empty list.\<close>

fun split :: "char \<Rightarrow> string \<Rightarrow> string list" where
  "split sep [] = [[]]"
| "split sep (c # cs) =
     (if c = sep then [] # split sep cs
      else (c # hd (split sep cs)) # tl (split sep cs))"

text \<open>\<^verbatim>\<open>sep.join(xs)\<close>.\<close>

fun join :: "string \<Rightarrow> string list \<Rightarrow> string" where
  "join sep [] = []"
| "join sep [x] = x"
| "join sep (x # y # ys) = x @ sep @ join sep (y # ys)"

text \<open>\<^verbatim>\<open>s.strip(chars)\<close>: removes the characters of \<open>chars\<close> at both ends.\<close>

definition strip_chars :: "string \<Rightarrow> string \<Rightarrow> string" where
  "strip_chars chars s =
     rev (dropWhile (\<lambda>c. c \<in> set chars) (rev (dropWhile (\<lambda>c. c \<in> set chars) s)))"

text \<open>The whitespace of \<^verbatim>\<open>str.isspace\<close> among the code points below 256.\<close>

definition whitespace :: string where
  "whitespace = [CHR 0x09, CHR 0x0A, CHR 0x0B, CHR 0x0C, CHR 0x0D, CHR 0x1C, CHR 0x1D,
     CHR 0x1E, CHR 0x1F, CHR 0x20, CHR 0x85, CHR 0xA0]"

text \<open>\<^verbatim>\<open>s.strip()\<close>.\<close>

definition strip :: "string \<Rightarrow> string" where
  "strip s = strip_chars whitespace s"

text \<open>
  \<^verbatim>\<open>int(s)\<close> on a string: surrounding whitespace is dropped, one sign is allowed, then
  decimal digits, with single underscores allowed between digits; anything else raises
  \<^verbatim>\<open>ValueError\<close>. The whitespace \<^verbatim>\<open>int\<close> drops is narrower than that of \<^verbatim>\<open>strip\<close>: the
  separators \<open>0x1C\<close> to \<open>0x1F\<close> are not part of it. The limit that later versions of
  Python put on the number of digits (4300 by default) is not modelled; the script asks
  for Python 3.7, which has none.
\<close>

definition int_whitespace :: string where
  "int_whitespace = [CHR 0x09, CHR 0x0A, CHR 0x0B, CHR 0x0C, CHR 0x0D, CHR 0x20, CHR 0x85,
     CHR 0xA0]"

definition is_digit :: "char \<Rightarrow> bool" where
  "is_digit c = (c \<in> set ''0123456789'')"

definition digit_val :: "char \<Rightarrow> nat" where
  "digit_val c = of_char c - 48"

fun parse_digits :: "nat \<Rightarrow> string \<Rightarrow> nat option" where
  "parse_digits acc [] = Some acc"
| "parse_digits acc [c] = (if is_digit c then Some (acc * 10 + digit_val c) else None)"
| "parse_digits acc (c # d # cs) =
     (if is_digit c then parse_digits (acc * 10 + digit_val c) (d # cs)
      else if c = CHR ''_'' \<and> is_digit d then parse_digits acc (d # cs)
      else None)"

definition py_int :: "string \<Rightarrow> error + int" where
  "py_int s =
     (let t = strip_chars int_whitespace s;
          neg = (t \<noteq> [] \<and> hd t = CHR ''-'');
          ds = (if t \<noteq> [] \<and> (hd t = CHR ''-'' \<or> hd t = CHR ''+'') then tl t else t)
      in if ds \<noteq> [] \<and> is_digit (hd ds)
         then (case parse_digits 0 ds of
                 None \<Rightarrow> Inl ValueError
               | Some n \<Rightarrow> Inr (if neg then - int n else int n))
         else Inl ValueError)"

text \<open>The decimal numeral of an integer, as the picker prints an index.\<close>

definition digit_char :: "nat \<Rightarrow> char" where
  "digit_char n = ''0123456789'' ! n"

fun show_nat :: "nat \<Rightarrow> string" where
  "show_nat n = (if n < 10 then [digit_char n] else show_nat (n div 10) @ [digit_char (n mod 10)])"

declare show_nat.simps [simp del]

definition show_int :: "int \<Rightarrow> string" where
  "show_int k = (if k < 0 then CHR ''-'' # show_nat (nat (- k)) else show_nat (nat k))"

text \<open>\<^verbatim>\<open>s.encode('utf-8')\<close> for code points below 256, as a list of byte values.\<close>

definition encode_utf8 :: "string \<Rightarrow> nat list" where
  "encode_utf8 s =
     concat (map (\<lambda>c. let n = of_char c :: nat
                       in if n < 128 then [n] else [192 + n div 64, 128 + n mod 64]) s)"

subsection \<open>Records\<close>

text \<open>\<^verbatim>\<open>Tune = namedtuple('Tune', ('name', 'id', 'type'))\<close>\<close>

record Tune =
  tune_name :: string
  tune_id :: string
  tune_type :: string

text \<open>\<^verbatim>\<open>TuneSetting = namedtuple('TuneSetting', ('id', 'meter', 'key', 'abc'))\<close>\<close>

record TuneSetting =
  s_id :: "string option"
  s_meter :: "string option"
  s_key :: "string option"
  s_abc :: string

subsection \<open>Endpoints and XPaths\<close>

definition TUNES_EP :: "string \<Rightarrow> string" where
  "TUNES_EP tid = ''https://thesession.org/tunes/'' @ tid"

definition SEARCH_EP :: "string \<Rightarrow> string" where
  "SEARCH_EP query = ''https://thesession.org/tunes/search?type=&mode=&q='' @ query"

definition POPULAR_TUNES_EP :: string where
  "POPULAR_TUNES_EP = ''https://thesession.org/tunes/popular''"

definition POPULAR_BASE_XPATH :: string where
  "POPULAR_BASE_XPATH = ''descendant::span[@class='' @ [CHR 0x27] @ ''manifest-item-title''
     @ [CHR 0x27] @ '']''"

definition POPULAR_NAME_XPATH :: string where
  "POPULAR_NAME_XPATH = join ''/'' [POPULAR_BASE_XPATH, ''a[@data-tuneid]/text()'']"

definition POPULAR_ID_XPATH :: string where
  "POPULAR_ID_XPATH = join ''/'' [POPULAR_BASE_XPATH, ''a/@data-tuneid'']"

definition POPULAR_TYPE_XPATH :: string where
  "POPULAR_TYPE_XPATH = join ''/'' [POPULAR_BASE_XPATH,
     ''a[@class='' @ [CHR 0x27] @ ''detail'' @ [CHR 0x27] @ '']/text()'']"

definition SEARCH_BASE_XPATH :: string where
  "SEARCH_BASE_XPATH = ''descendant::li[@class='' @ [CHR 0x27] @ ''manifest-item''
     @ [CHR 0x27] @ '']''"

definition SEARCH_NAME_XPATH :: string where
  "SEARCH_NAME_XPATH = join ''/'' [SEARCH_BASE_XPATH, ''a[@data-tuneid]/text()'']"

definition SEARCH_ID_XPATH :: string where
  "SEARCH_ID_XPATH = join ''/'' [SEARCH_BASE_XPATH, ''a/@data-tuneid'']"

definition SEARCH_TYPE_XPATH :: string where
  "SEARCH_TYPE_XPATH = join ''/'' [SEARCH_BASE_XPATH,
     ''span[@class='' @ [CHR 0x27] @ ''manifest-item-title detail'' @ [CHR 0x27]
       @ '']/text()'']"

definition BASE_SETTING_XPATH :: string where
  "BASE_SETTING_XPATH = ''descendant::div[@class='' @ [CHR 0x27] @ ''setting-abc''
     @ [CHR 0x27] @ '']/div[@class='' @ [CHR 0x27] @ ''notes'' @ [CHR 0x27] @ '']''"

subsection \<open>Fetching\<close>

record response =
  status_code :: int
  content :: string

text \<open>
  The site as the script meets it: the response it gives to a GET of each URL, and the URLs
  requested so far, in order. \<^verbatim>\<open>requests.get(url)\<close> is one request; a failure to connect is
  outside the model.
\<close>

record net =
  responses :: "string \<Rightarrow> response"
  requested :: "string list"

definition requests_get :: "string \<Rightarrow> net \<Rightarrow> response \<times> net" where
  "requests_get url n = (responses n url, n\<lparr>requested := requested n @ [url]\<rparr>)"

text \<open>
  \<^verbatim>\<open>resp.raise_for_status()\<close> of the requests library, which the script calls after each
  \<^verbatim>\<open>requests.get\<close>: it raises \<^verbatim>\<open>HTTPError\<close> for a client error (400 to 499) and for a
  server error (500 to 599), and returns for every other status.
\<close>

definition raise_for_status :: "response \<Rightarrow> error + unit" where
  "raise_for_status resp =
     (if 400 \<le> status_code resp \<and> status_code resp < 600
      then Inl (HTTPError (status_code resp)) else Inr ())"

text \<open>
  The markup library. \<^verbatim>\<open>html.fromstring(body)\<close> raises \<^verbatim>\<open>ParserError\<close> on a body in which
  it finds no document (the empty body is one) and returns a tree otherwise; which bodies
  it refuses is the library's matter, so the function is a parameter. A tree is given by
  what \<^verbatim>\<open>tree.xpath(path)\<close> returns for each path: the strings selected, in document
  order, and for a path that selects elements the \<^verbatim>\<open>text_content()\<close> of each.
\<close>

type_synonym tree = "string \<Rightarrow> string list"
type_synonym lxml = "string \<Rightarrow> error + tree"

text \<open>\<^verbatim>\<open>[Tune(*elem) for elem in zip(names, ids, types)]\<close>\<close>

definition zip_tunes :: "string list \<Rightarrow> string list \<Rightarrow> string list \<Rightarrow> Tune list" where
  "zip_tunes names ids types =
     map (\<lambda>(n, i, t). \<lparr>tune_name = n, tune_id = i, tune_type = t\<rparr>) (zip names (zip ids types))"

definition get_popular_tunes :: "lxml \<Rightarrow> net \<Rightarrow> (error + Tune list) \<times> net" where
  "get_popular_tunes fromstring n =
     (let (resp, n') = requests_get POPULAR_TUNES_EP n;
          tunes =
            (case raise_for_status resp of
               Inl e \<Rightarrow> Inl e
             | Inr _ \<Rightarrow>
                 (case fromstring (content resp) of
                    Inl e \<Rightarrow> Inl e
                  | Inr tree \<Rightarrow>
                      Inr (zip_tunes (tree POPULAR_NAME_XPATH)
                                     (tree POPULAR_ID_XPATH)
                                     (tree POPULAR_TYPE_XPATH))))
      in (tunes, n'))"

definition get_search_tunes :: "lxml \<Rightarrow> string \<Rightarrow> net \<Rightarrow> (error + Tune list) \<times> net" where
  "get_search_tunes fromstring query n =
     (let (resp, n') = requests_get (SEARCH_EP query) n;
          tunes =
            (case raise_for_status resp of
               Inl e \<Rightarrow> Inl e
             | Inr _ \<Rightarrow>
                 (case fromstring (content resp) of
                    Inl e \<Rightarrow> Inl e
                  | Inr tree \<Rightarrow>
                      Inr (zip_tunes (tree SEARCH_NAME_XPATH)
                                     (tree SEARCH_ID_XPATH)
                                     (map (strip_chars [CHR 0x0A]) (tree SEARCH_TYPE_XPATH)))))
      in (tunes, n'))"

subsection \<open>Settings of a tune\<close>

text \<open>
  The inner loop of \<^verbatim>\<open>get_tune_settings\<close> over the lines of one notation block, with
  the four variables of the loop as arguments. \<^verbatim>\<open>ls[0]\<close> is \<open>hd ls\<close>, since a split is
  never empty; \<^verbatim>\<open>ls[1]\<close> raises when the line has no colon.
\<close>

fun scan_lines ::
  "string list \<Rightarrow> string option \<Rightarrow> string option \<Rightarrow> string option \<Rightarrow> string list
     \<Rightarrow> error + TuneSetting" where
  "scan_lines [] i m k abc =
     Inr \<lparr>s_id = i, s_meter = m, s_key = k, s_abc = join [CHR 0x0A] abc\<rparr>"
| "scan_lines (line # rest) i m k abc =
     (if line \<noteq> [] then
        (let ls = split CHR '':'' line in
         if hd ls = ''X'' then
           (case py_index ls 1 of
              Inl e \<Rightarrow> Inl e
            | Inr v \<Rightarrow> scan_lines rest (Some (strip v)) m k (abc @ [line]))
         else if hd ls = ''M'' then
           (case py_index ls 1 of
              Inl e \<Rightarrow> Inl e
            | Inr v \<Rightarrow> scan_lines rest i (Some (strip v)) k (abc @ [line]))
         else if hd ls = ''K'' then
           (case py_index ls 1 of
              Inl e \<Rightarrow> Inl e
            | Inr v \<Rightarrow> scan_lines rest i m (Some (strip v)) (abc @ [line]))
         else scan_lines rest i m k (abc @ [line]))
      else scan_lines rest i m k abc)"

text \<open>The body of the outer loop: one element's text to one setting.\<close>

definition parse_setting :: "string \<Rightarrow> error + TuneSetting" where
  "parse_setting text_content = scan_lines (split (CHR 0x0A) text_content) None None None []"

fun parse_elements :: "string list \<Rightarrow> error + TuneSetting list" where
  "parse_elements [] = Inr []"
| "parse_elements (element # rest) =
     (case parse_setting element of
        Inl e \<Rightarrow> Inl e
      | Inr s \<Rightarrow>
          (case parse_elements rest of
             Inl e \<Rightarrow> Inl e
           | Inr ss \<Rightarrow> Inr (s # ss)))"

definition get_tune_settings ::
  "lxml \<Rightarrow> string \<Rightarrow> net \<Rightarrow> (error + TuneSetting list) \<times> net" where
  "get_tune_settings fromstring tid n =
     (let (resp, n') = requests_get (TUNES_EP tid) n;
          settings =
            (case raise_for_status resp of
               Inl e \<Rightarrow> Inl e
             | Inr _ \<Rightarrow>
                 (case fromstring (content resp) of
                    Inl e \<Rightarrow> Inl e
                  | Inr tree \<Rightarrow> parse_elements (tree BASE_SETTING_XPATH)))
      in (settings, n'))"

subsection \<open>Selection\<close>

text \<open>
  What \<^verbatim>\<open>subprocess.run\<close> returns for the picker. The candidates are formatted for the
  picker's input only; the reply is the picker's own. \<^verbatim>\<open>exit(code)\<close> raises
  \<^verbatim>\<open>SystemExit\<close> with the code, and \<^verbatim>\<open>rofi_output[0]\<close> is \<open>hd rofi_output\<close>, since a split
  is never empty.
\<close>

record rofi_result =
  returncode :: int
  stdout :: string

definition select_tune :: "Tune list \<Rightarrow> rofi_result \<Rightarrow> error + Tune" where
  "select_tune tunes rofi =
     (if returncode rofi \<noteq> 0 then Inl (SystemExit (returncode rofi))
      else
        (let rofi_output = split CHR '':'' (stdout rofi) in
         case py_int (hd rofi_output) of
           Inl e \<Rightarrow> Inl e
         | Inr index \<Rightarrow>
             if index < 0 then
               (case py_index rofi_output 1 of
                  Inl e \<Rightarrow> Inl e
                | Inr q \<Rightarrow> Inl (SearchException q))
             else py_index tunes index))"

definition select_setting :: "TuneSetting list \<Rightarrow> rofi_result \<Rightarrow> error + TuneSetting" where
  "select_setting settings rofi =
     (if returncode rofi \<noteq> 0 then Inl (SystemExit (returncode rofi))
      else
        (let rofi_output = split CHR '':'' (stdout rofi) in
         case py_int (hd rofi_output) of
           Inl e \<Rightarrow> Inl e
         | Inr index \<Rightarrow>
             if index < 0 then Inl ValueError
             else py_index settings index))"

subsection \<open>Display\<close>

text \<open>
  What \<^verbatim>\<open>display_abc\<close> does to processes is logged in order. A process is named by the
  number of processes started before it.
\<close>

datatype stream = PIPE | Inherited | Stdin_of nat

datatype effect =
    Start "string list" stream stream
  | Write nat "nat list"
  | Close_stdin nat
  | Wait nat

definition PDF_VIEWER_CMD :: "string list" where
  "PDF_VIEWER_CMD = [''zathura'', ''-'']"

definition PS2PDF_CMD :: "string list" where
  "PS2PDF_CMD = [''ps2pdf'', ''-'', ''-'']"

definition ABC2PS_CMD :: "string list" where
  "ABC2PS_CMD = [''abcm2ps'', ''-'', ''-O'', ''-'']"

fun is_start :: "effect \<Rightarrow> bool" where
  "is_start (Start _ _ _) = True"
| "is_start _ = False"

text \<open>\<^verbatim>\<open>subprocess.Popen(cmd, stdin=..., stdout=...)\<close>: the new process and the log.\<close>

definition Popen :: "string list \<Rightarrow> stream \<Rightarrow> stream \<Rightarrow> effect list \<Rightarrow> nat \<times> effect list" where
  "Popen cmd sin sout log = (length (filter is_start log), log @ [Start cmd sin sout])"

text \<open>
  \<^verbatim>\<open>p.communicate(input)\<close> of the subprocess module, for a process whose only pipe is its
  standard input, as both processes of \<^verbatim>\<open>display_abc\<close> are: the input is written when
  there is one and it is not empty, the standard input of the process is closed, and the
  process is awaited.
\<close>

definition communicate :: "nat \<Rightarrow> nat list option \<Rightarrow> effect list \<Rightarrow> effect list" where
  "communicate p input log =
     (case input of
        None \<Rightarrow> log
      | Some bytes \<Rightarrow> if bytes = [] then log else log @ [Write p bytes])
     @ [Close_stdin p, Wait p]"

text \<open>\<^verbatim>\<open>p.stdin.close()\<close>\<close>

definition close_stdin :: "nat \<Rightarrow> effect list \<Rightarrow> effect list" where
  "close_stdin p log = log @ [Close_stdin p]"

definition display_abc :: "string \<Rightarrow> effect list \<Rightarrow> effect list" where
  "display_abc abc log0 =
     (let (pdf_viewer, log1) = Popen PDF_VIEWER_CMD PIPE Inherited log0;
          (ps2pdf, log2) = Popen PS2PDF_CMD PIPE (Stdin_of pdf_viewer) log1;
          (abcm2ps, log3) = Popen ABC2PS_CMD PIPE (Stdin_of ps2pdf) log2;
          log4 = communicate abcm2ps (Some (encode_utf8 abc)) log3;
          log5 = communicate ps2pdf None log4
      in close_stdin pdf_viewer log5)"

subsection \<open>The search loop\<close>

text \<open>
  The \<^verbatim>\<open>while not tune\<close> loop of \<^verbatim>\<open>search_and_display\<close>; a \<^verbatim>\<open>Tune\<close> is a tuple of
  three fields and so is true, and the loop ends at the first tune selected. Only
  \<^verbatim>\<open>SearchException\<close> is caught. Each run of the picker takes the next reply of the list;
  when no reply is left the picker has not answered yet and the result is \<open>None\<close>. A
  selected tune comes with the replies not yet taken.
\<close>

fun search_loop ::
  "lxml \<Rightarrow> string \<Rightarrow> rofi_result list \<Rightarrow> net
     \<Rightarrow> (error + Tune \<times> rofi_result list) option \<times> net" where
  "search_loop fromstring query [] n =
     (case get_search_tunes fromstring query n of
        (Inl e, n') \<Rightarrow> (Some (Inl e), n')
      | (Inr tunes, n') \<Rightarrow> (None, n'))"
| "search_loop fromstring query (r # rs) n =
     (case get_search_tunes fromstring query n of
        (Inl e, n') \<Rightarrow> (Some (Inl e), n')
      | (Inr tunes, n') \<Rightarrow>
          (case select_tune tunes r of
             Inl (SearchException q) \<Rightarrow> search_loop fromstring q rs n'
           | Inl e \<Rightarrow> (Some (Inl e), n')
           | Inr tune \<Rightarrow> (Some (Inr (tune, rs)), n')))"

text \<open>
  \<^verbatim>\<open>search_and_display\<close>: the outcome (\<open>Some (Inr ())\<close> when the function returns,
  \<open>Some (Inl e)\<close> when it raises, \<open>None\<close> while a picker has not answered), what was done to
  processes, and the site with the URLs requested.
\<close>

definition search_and_display ::
  "lxml \<Rightarrow> string \<Rightarrow> rofi_result list \<Rightarrow> net
     \<Rightarrow> (error + unit) option \<times> effect list \<times> net" where
  "search_and_display fromstring query replies n =
     (case search_loop fromstring query replies n of
        (None, n1) \<Rightarrow> (None, [], n1)
      | (Some (Inl e), n1) \<Rightarrow> (Some (Inl e), [], n1)
      | (Some (Inr (tune, rs)), n1) \<Rightarrow>
          (case get_tune_settings fromstring (tune_id tune) n1 of
             (Inl e, n2) \<Rightarrow> (Some (Inl e), [], n2)
           | (Inr settings, n2) \<Rightarrow>
               (case rs of
                  [] \<Rightarrow> (None, [], n2)
                | r # _ \<Rightarrow>
                    (case select_setting settings r of
                       Inl e \<Rightarrow> (Some (Inl e), [], n2)
                     | Inr setting \<Rightarrow>
                         (Some (Inr ()), display_abc (s_abc setting) [], n2)))))"

section \<open>Example inputs\<close>

text \<open>
  Pages, sites and picker replies on which the properties below are run. Each page comes
  with its tree: what the queries of the script select in it.
\<close>

definition search_html :: string where
  "search_html =
     ''<html><body><ul>'' @
     ''<li class='manifest-item'><a data-tuneid='50' href='/tunes/50'>Cooleys</a>'' @
     ''<span class='manifest-item-title detail'>\<newline>reel\<newline></span></li>'' @
     ''<li class='manifest-item'><a data-tuneid='23' href='/tunes/23'>Drowsy Maggie</a>'' @
     ''<span class='manifest-item-title detail'>\<newline>reel\<newline></span></li>'' @
     ''</ul></body></html>''"

definition search_tree :: tree where
  "search_tree path =
     (if path = SEARCH_NAME_XPATH then [''Cooleys'', ''Drowsy Maggie'']
      else if path = SEARCH_ID_XPATH then [''50'', ''23'']
      else if path = SEARCH_TYPE_XPATH then [''\<newline>reel\<newline>'', ''\<newline>reel\<newline>'']
      else [])"

text \<open>A search page whose second entry has no type.\<close>

definition ragged_search_html :: string where
  "ragged_search_html =
     ''<html><body><ul>'' @
     ''<li class='manifest-item'><a data-tuneid='50' href='/tunes/50'>Cooleys</a>'' @
     ''<span class='manifest-item-title detail'>\<newline>reel\<newline></span></li>'' @
     ''<li class='manifest-item'><a data-tuneid='23' href='/tunes/23'>Drowsy Maggie</a></li>'' @
     ''</ul></body></html>''"

definition ragged_search_tree :: tree where
  "ragged_search_tree path =
     (if path = SEARCH_NAME_XPATH then [''Cooleys'', ''Drowsy Maggie'']
      else if path = SEARCH_ID_XPATH then [''50'', ''23'']
      else if path = SEARCH_TYPE_XPATH then [''\<newline>reel\<newline>'']
      else [])"

definition popular_html :: string where
  "popular_html =
     ''<html><body>'' @
     ''<span class='manifest-item-title'><a data-tuneid='55' href='/tunes/55'>The Kesh</a>'' @
     ''<a class='detail' href='/tunes/popular/jigs'>jig</a></span>'' @
     ''<span class='manifest-item-title'><a data-tuneid='27' href='/tunes/27'>Drowsy Maggie</a>'' @
     ''<a class='detail' href='/tunes/popular/reels'>reel</a></span>'' @
     ''</body></html>''"

definition popular_tree :: tree where
  "popular_tree path =
     (if path = POPULAR_NAME_XPATH then [''The Kesh'', ''Drowsy Maggie'']
      else if path = POPULAR_ID_XPATH then [''55'', ''27'']
      else if path = POPULAR_TYPE_XPATH then [''jig'', ''reel'']
      else [])"

text \<open>A popular page whose first entry has no type.\<close>

definition ragged_popular_html :: string where
  "ragged_popular_html =
     ''<html><body>'' @
     ''<span class='manifest-item-title'><a data-tuneid='55' href='/tunes/55'>The Kesh</a>'' @
     ''</span>'' @
     ''<span class='manifest-item-title'><a data-tuneid='27' href='/tunes/27'>Drowsy Maggie</a>'' @
     ''<a class='detail' href='/tunes/popular/reels'>reel</a></span>'' @
     ''</body></html>''"

definition ragged_popular_tree :: tree where
  "ragged_popular_tree path =
     (if path = POPULAR_NAME_XPATH then [''The Kesh'', ''Drowsy Maggie'']
      else if path = POPULAR_ID_XPATH then [''55'', ''27'']
      else if path = POPULAR_TYPE_XPATH then [''reel'']
      else [])"

definition settings_html :: string where
  "settings_html =
     ''<html><body><div class='setting-abc'><div class='notes'>'' @
     ''X:1\<newline>M:4/4\<newline>K:Edor\<newline>A B c d|'' @
     ''</div></div></body></html>''"

definition settings_tree :: tree where
  "settings_tree path =
     (if path = BASE_SETTING_XPATH then [''X:1\<newline>M:4/4\<newline>K:Edor\<newline>A B c d|''] else [])"

text \<open>A tune page with a line that is a bare \<^verbatim>\<open>K\<close>.\<close>

definition colonless_html :: string where
  "colonless_html =
     ''<html><body><div class='setting-abc'><div class='notes'>'' @
     ''X:1\<newline>K\<newline>A B c d|'' @
     ''</div></div></body></html>''"

definition colonless_tree :: tree where
  "colonless_tree path =
     (if path = BASE_SETTING_XPATH then [''X:1\<newline>K\<newline>A B c d|''] else [])"

text \<open>
  The library on the example pages: each page gives its tree, the empty body is refused,
  and a body that is none of the pages has no match for any query.
\<close>

definition example_fromstring :: lxml where
  "example_fromstring body =
     (if body = [] then Inl ParserError
      else if body = search_html then Inr search_tree
      else if body = ragged_search_html then Inr ragged_search_tree
      else if body = popular_html then Inr popular_tree
      else if body = ragged_popular_html then Inr ragged_popular_tree
      else if body = settings_html then Inr settings_tree
      else if body = colonless_html then Inr colonless_tree
      else Inr (\<lambda>path. []))"

text \<open>Sites: which page each URL gives, with which status; nothing requested yet.\<close>

definition example_net :: net where
  "example_net =
     \<lparr>responses = (\<lambda>url.
        if url = POPULAR_TUNES_EP then \<lparr>status_code = 200, content = popular_html\<rparr>
        else if url = TUNES_EP ''23'' then \<lparr>status_code = 200, content = settings_html\<rparr>
        else \<lparr>status_code = 200, content = search_html\<rparr>),
      requested = []\<rparr>"

definition ragged_net :: net where
  "ragged_net =
     \<lparr>responses = (\<lambda>url.
        if url = POPULAR_TUNES_EP then \<lparr>status_code = 200, content = ragged_popular_html\<rparr>
        else \<lparr>status_code = 200, content = ragged_search_html\<rparr>),
      requested = []\<rparr>"

definition colonless_net :: net where
  "colonless_net =
     \<lparr>responses = (\<lambda>url. \<lparr>status_code = 200, content = colonless_html\<rparr>), requested = []\<rparr>"

definition not_found_net :: net where
  "not_found_net =
     \<lparr>responses = (\<lambda>url. \<lparr>status_code = 404, content = ''<html><body>Not Found</body></html>''\<rparr>),
      requested = []\<rparr>"

definition multiple_choices_net :: net where
  "multiple_choices_net =
     \<lparr>responses = (\<lambda>url. \<lparr>status_code = 300, content = search_html\<rparr>), requested = []\<rparr>"

definition two_tunes :: "Tune list" where
  "two_tunes = [\<lparr>tune_name = ''Cooleys'', tune_id = ''50'', tune_type = ''reel''\<rparr>,
                \<lparr>tune_name = ''Drowsy Maggie'', tune_id = ''23'', tune_type = ''reel''\<rparr>]"

definition two_settings :: "TuneSetting list" where
  "two_settings =
     [\<lparr>s_id = Some ''1'', s_meter = Some ''4/4'', s_key = Some ''Edor'', s_abc = ''X:1''\<rparr>,
      \<lparr>s_id = Some ''2'', s_meter = Some ''4/4'', s_key = Some ''Edor'', s_abc = ''X:2''\<rparr>]"

definition reply :: "string \<Rightarrow> rofi_result" where
  "reply out = \<lparr>returncode = 0, stdout = out\<rparr>"

definition cancelled :: rofi_result where
  "cancelled = \<lparr>returncode = 1, stdout = []\<rparr>"

section \<open>Properties\<close>

lemmas xpath_defs = SEARCH_NAME_XPATH_def SEARCH_ID_XPATH_def SEARCH_TYPE_XPATH_def
  POPULAR_NAME_XPATH_def POPULAR_ID_XPATH_def POPULAR_TYPE_XPATH_def
  SEARCH_BASE_XPATH_def POPULAR_BASE_XPATH_def BASE_SETTING_XPATH_def

lemmas html_defs = search_html_def ragged_search_html_def popular_html_def
  ragged_popular_html_def settings_html_def colonless_html_def

subsection \<open>The example pages\<close>

lemma example_pages:
  "example_fromstring search_html = Inr search_tree"
  "example_fromstring ragged_search_html = Inr ragged_search_tree"
  "example_fromstring popular_html = Inr popular_tree"
  "example_fromstring ragged_popular_html = Inr ragged_popular_tree"
  "example_fromstring settings_html = Inr settings_tree"
  "example_fromstring colonless_html = Inr colonless_tree"
  by (simp_all add: example_fromstring_def html_defs)

lemma example_trees:
  "search_tree SEARCH_NAME_XPATH = [''Cooleys'', ''Drowsy Maggie'']"
  "search_tree SEARCH_ID_XPATH = [''50'', ''23'']"
  "search_tree SEARCH_TYPE_XPATH = [''\<newline>reel\<newline>'', ''\<newline>reel\<newline>'']"
  "search_tree BASE_SETTING_XPATH = []"
  "ragged_search_tree SEARCH_NAME_XPATH = [''Cooleys'', ''Drowsy Maggie'']"
  "ragged_search_tree SEARCH_ID_XPATH = [''50'', ''23'']"
  "ragged_search_tree SEARCH_TYPE_XPATH = [''\<newline>reel\<newline>'']"
  "popular_tree POPULAR_NAME_XPATH = [''The Kesh'', ''Drowsy Maggie'']"
  "popular_tree POPULAR_ID_XPATH = [''55'', ''27'']"
  "popular_tree POPULAR_TYPE_XPATH = [''jig'', ''reel'']"
  "ragged_popular_tree POPULAR_NAME_XPATH = [''The Kesh'', ''Drowsy Maggie'']"
  "ragged_popular_tree POPULAR_ID_XPATH = [''55'', ''27'']"
  "ragged_popular_tree POPULAR_TYPE_XPATH = [''reel'']"
  "settings_tree BASE_SETTING_XPATH = [''X:1\<newline>M:4/4\<newline>K:Edor\<newline>A B c d|'']"
  "colonless_tree BASE_SETTING_XPATH = [''X:1\<newline>K\<newline>A B c d|'']"
  by (simp_all add: search_tree_def ragged_search_tree_def popular_tree_def
      ragged_popular_tree_def settings_tree_def colonless_tree_def xpath_defs)

lemma example_responses:
  "responses example_net POPULAR_TUNES_EP = \<lparr>status_code = 200, content = popular_html\<rparr>"
  "responses example_net (SEARCH_EP q) = \<lparr>status_code = 200, content = search_html\<rparr>"
  "responses example_net (TUNES_EP ''23'') = \<lparr>status_code = 200, content = settings_html\<rparr>"
  "responses ragged_net POPULAR_TUNES_EP = \<lparr>status_code = 200, content = ragged_popular_html\<rparr>"
  "responses ragged_net (SEARCH_EP q) = \<lparr>status_code = 200, content = ragged_search_html\<rparr>"
  "responses colonless_net url = \<lparr>status_code = 200, content = colonless_html\<rparr>"
  "responses multiple_choices_net url = \<lparr>status_code = 300, content = search_html\<rparr>"
  "status_code (responses not_found_net url) = 404"
  by (simp_all add: example_net_def ragged_net_def colonless_net_def multiple_choices_net_def
      not_found_net_def POPULAR_TUNES_EP_def SEARCH_EP_def TUNES_EP_def)

subsection \<open>Splitting, joining and stripping\<close>

lemma split_not_Nil: "split sep s \<noteq> []"
  by (induction s) auto

lemma split_Cons:
  "split sep (c # cs) =
     (case split sep cs of
        [] \<Rightarrow> []
      | w # ws \<Rightarrow> if c = sep then [] # w # ws else (c # w) # ws)"
  using split_not_Nil [of sep cs] by (cases "split sep cs") auto

lemmas eval_simps = parse_setting_def py_index_def strip_def strip_chars_def whitespace_def
  split_Cons

lemma split_no_sep: "sep \<notin> set a \<Longrightarrow> split sep a = [a]"
  by (induction a) auto

lemma split_append_sep: "sep \<notin> set a \<Longrightarrow> split sep (a @ sep # b) = a # split sep b"
  by (induction a) auto

lemma split_lines_no_sep: "l \<in> set (split sep s) \<Longrightarrow> sep \<notin> set l"
proof (induction s arbitrary: l)
  case Nil
  then show ?case by simp
next
  case (Cons c cs)
  show ?case
  proof (cases "c = sep")
    case True
    with Cons show ?thesis by auto
  next
    case False
    obtain w ws where w: "split sep cs = w # ws"
      using split_not_Nil [of sep cs] by (cases "split sep cs") auto
    with Cons False show ?thesis by auto
  qed
qed

lemma split_join:
  assumes "ls \<noteq> []" and "\<forall>l \<in> set ls. sep \<notin> set l"
  shows "split sep (join [sep] ls) = ls"
  using assms
proof (induction ls)
  case Nil
  then show ?case by simp
next
  case (Cons x xs)
  show ?case
  proof (cases xs)
    case Nil
    with Cons.prems show ?thesis by (simp add: split_no_sep)
  next
    case (Cons y ys)
    with Cons.IH Cons.prems show ?thesis by (simp add: split_append_sep)
  qed
qed

lemma strip_chars_id:
  assumes "\<forall>c \<in> set s. c \<notin> set chars"
  shows "strip_chars chars s = s"
proof -
  have "dropWhile (\<lambda>c. c \<in> set chars) s = s"
    using assms by (cases s) auto
  moreover have "dropWhile (\<lambda>c. c \<in> set chars) (rev s) = rev s"
    using assms by (cases "rev s") (auto simp: )
  ultimately show ?thesis by (simp add: strip_chars_def)
qed

subsection \<open>Decimal numerals\<close>

lemma digit_val_digit_char: "n < 10 \<Longrightarrow> digit_val (digit_char n) = n"
proof -
  assume "n < 10"
  then have "n \<in> {0, 1, 2, 3, 4, 5, 6, 7, 8, 9}" by auto
  then show ?thesis by (auto simp: digit_val_def digit_char_def)
qed

lemma is_digit_digit_char: "n < 10 \<Longrightarrow> is_digit (digit_char n)"
proof -
  assume "n < 10"
  then have "n \<in> {0, 1, 2, 3, 4, 5, 6, 7, 8, 9}" by auto
  then show ?thesis by (auto simp: is_digit_def digit_char_def)
qed

lemma show_nat_digits: "c \<in> set (show_nat n) \<Longrightarrow> is_digit c"
proof (induction n arbitrary: c rule: show_nat.induct)
  case (1 n)
  show ?case
  proof (cases "n < 10")
    case True
    with 1(2) show ?thesis by (simp add: show_nat.simps [of n] is_digit_digit_char)
  next
    case False
    with 1 show ?thesis
      by (auto simp: show_nat.simps [of n] is_digit_digit_char)
  qed
qed

lemma show_nat_not_Nil: "show_nat n \<noteq> []"
  by (simp add: show_nat.simps [of n])

lemma parse_digits_all_digits:
  "\<forall>c \<in> set ds. is_digit c \<Longrightarrow>
     parse_digits acc ds = Some (foldl (\<lambda>a c. a * 10 + digit_val c) acc ds)"
  by (induction acc ds rule: parse_digits.induct) auto

lemma foldl_show_nat: "foldl (\<lambda>a c. a * 10 + digit_val c) 0 (show_nat n) = n"
proof (induction n rule: show_nat.induct)
  case (1 n)
  show ?case
  proof (cases "n < 10")
    case True
    then show ?thesis by (simp add: show_nat.simps [of n] digit_val_digit_char)
  next
    case False
    with 1 show ?thesis
      by (simp add: show_nat.simps [of n] digit_val_digit_char)
  qed
qed

lemma parse_digits_show_nat: "parse_digits 0 (show_nat n) = Some n"
  using show_nat_digits by (simp add: parse_digits_all_digits foldl_show_nat)

lemma is_digit_not_space: "is_digit c \<Longrightarrow> c \<notin> set int_whitespace"
  by (auto simp: is_digit_def int_whitespace_def)

lemma is_digit_not_colon: "is_digit c \<Longrightarrow> c \<noteq> CHR '':''"
  by (auto simp: is_digit_def)

lemma is_digit_not_sign: "is_digit c \<Longrightarrow> c \<noteq> CHR ''-'' \<and> c \<noteq> CHR ''+''"
  by (auto simp: is_digit_def)

lemma show_int_chars: "c \<in> set (show_int k) \<Longrightarrow> c = CHR ''-'' \<or> is_digit c"
  by (auto simp: show_int_def dest: show_nat_digits split: if_splits)

lemma strip_show_int: "strip_chars int_whitespace (show_int k) = show_int k"
proof -
  have "\<forall>c \<in> set (show_int k). c \<notin> set int_whitespace"
    using show_int_chars is_digit_not_space by (fastforce simp: int_whitespace_def)
  then show ?thesis by (simp add: strip_chars_id)
qed

lemma colon_not_in_show_int: "CHR '':'' \<notin> set (show_int k)"
  using show_int_chars is_digit_not_colon by fastforce

lemma py_int_show_int: "py_int (show_int k) = Inr k"
proof (cases "k < 0")
  case True
  have hd: "is_digit (hd (show_nat (nat (- k))))"
    using show_nat_digits show_nat_not_Nil by (meson hd_in_set)
  with True show ?thesis
    by (simp add: py_int_def strip_show_int Let_def)
       (simp add: show_int_def show_nat_not_Nil parse_digits_show_nat)
next
  case False
  have hd: "is_digit (hd (show_nat (nat k)))"
    using show_nat_digits show_nat_not_Nil by (meson hd_in_set)
  with False is_digit_not_sign [OF hd] show ?thesis
    by (simp add: py_int_def strip_show_int Let_def)
       (simp add: show_int_def show_nat_not_Nil parse_digits_show_nat)
qed

lemma show_int_examples:
  "show_int 1 = ''1''" "show_int 5 = ''5''" "show_int (- 1) = ''-1''"
  by (simp_all add: show_int_def show_nat.simps digit_char_def)

subsection \<open>Positional pairing\<close>

lemma length_zip_tunes:
  "length (zip_tunes names ids types) = min (length names) (min (length ids) (length types))"
  by (simp add: zip_tunes_def)

lemma nth_zip_tunes:
  assumes "i < length names" "i < length ids" "i < length types"
  shows "zip_tunes names ids types ! i =
           \<lparr>tune_name = names ! i, tune_id = ids ! i, tune_type = types ! i\<rparr>"
  using assms by (simp add: zip_tunes_def)

lemma get_popular_tunes_parsed:
  assumes "raise_for_status (responses n POPULAR_TUNES_EP) = Inr ()"
    and "fromstring (content (responses n POPULAR_TUNES_EP)) = Inr tree"
  shows "fst (get_popular_tunes fromstring n) =
     Inr (zip_tunes (tree POPULAR_NAME_XPATH) (tree POPULAR_ID_XPATH) (tree POPULAR_TYPE_XPATH))"
  using assms by (simp add: get_popular_tunes_def requests_get_def)

lemma get_search_tunes_parsed:
  assumes "raise_for_status (responses n (SEARCH_EP query)) = Inr ()"
    and "fromstring (content (responses n (SEARCH_EP query))) = Inr tree"
  shows "fst (get_search_tunes fromstring query n) =
     Inr (zip_tunes (tree SEARCH_NAME_XPATH) (tree SEARCH_ID_XPATH)
            (map (strip_chars [CHR 0x0A]) (tree SEARCH_TYPE_XPATH)))"
  using assms by (simp add: get_search_tunes_def requests_get_def)

text \<open>
  C10. When the three query results differ in length, \<^verbatim>\<open>get_popular_tunes\<close> and
  \<^verbatim>\<open>get_search_tunes\<close> neither raise nor pad: for a page that was fetched and parsed,
  each returns as many records as the shortest of its three results has elements, the
  \<open>i\<close>-th record made of the \<open>i\<close>-th elements (the type with its newlines stripped in the
  search), and what the longer results hold beyond that is dropped.
\<close>

theorem zip_truncates:
  "(raise_for_status (responses n POPULAR_TUNES_EP) = Inr () \<and>
    fromstring (content (responses n POPULAR_TUNES_EP)) = Inr tree \<longrightarrow>
      (\<exists>ps. fst (get_popular_tunes fromstring n) = Inr ps \<and>
         length ps = Min {length (tree POPULAR_NAME_XPATH), length (tree POPULAR_ID_XPATH),
                          length (tree POPULAR_TYPE_XPATH)} \<and>
         (\<forall>i < length ps. ps ! i =
            \<lparr>tune_name = tree POPULAR_NAME_XPATH ! i, tune_id = tree POPULAR_ID_XPATH ! i,
             tune_type = tree POPULAR_TYPE_XPATH ! i\<rparr>))) \<and>
   (raise_for_status (responses n (SEARCH_EP query)) = Inr () \<and>
    fromstring (content (responses n (SEARCH_EP query))) = Inr stree \<longrightarrow>
      (\<exists>ss. fst (get_search_tunes fromstring query n) = Inr ss \<and>
         length ss = Min {length (stree SEARCH_NAME_XPATH), length (stree SEARCH_ID_XPATH),
                          length (stree SEARCH_TYPE_XPATH)} \<and>
         (\<forall>i < length ss. ss ! i =
            \<lparr>tune_name = stree SEARCH_NAME_XPATH ! i, tune_id = stree SEARCH_ID_XPATH ! i,
             tune_type = strip_chars [CHR 0x0A] (stree SEARCH_TYPE_XPATH ! i)\<rparr>)))"
  by (simp add: get_popular_tunes_parsed get_search_tunes_parsed length_zip_tunes nth_zip_tunes
      min.assoc)

theorem zip_truncates_witness:
  "fst (get_popular_tunes example_fromstring ragged_net) =
     Inr [\<lparr>tune_name = ''The Kesh'', tune_id = ''55'', tune_type = ''reel''\<rparr>] \<and>
   fst (get_search_tunes example_fromstring ''reel'' ragged_net) =
     Inr [\<lparr>tune_name = ''Cooleys'', tune_id = ''50'', tune_type = ''reel''\<rparr>]"
proof -
  have p: "raise_for_status (responses ragged_net POPULAR_TUNES_EP) = Inr () \<and>
      example_fromstring (content (responses ragged_net POPULAR_TUNES_EP)) = Inr ragged_popular_tree"
    by (simp add: raise_for_status_def example_responses example_pages)
  have s: "raise_for_status (responses ragged_net (SEARCH_EP ''reel'')) = Inr () \<and>
      example_fromstring (content (responses ragged_net (SEARCH_EP ''reel''))) = Inr ragged_search_tree"
    by (simp add: raise_for_status_def example_responses example_pages)
  from zip_truncates [where n = ragged_net and fromstring = example_fromstring
      and tree = ragged_popular_tree] p
  obtain ps where ps: "fst (get_popular_tunes example_fromstring ragged_net) = Inr ps"
    "length ps = Min {length (ragged_popular_tree POPULAR_NAME_XPATH),
       length (ragged_popular_tree POPULAR_ID_XPATH), length (ragged_popular_tree POPULAR_TYPE_XPATH)}"
    "\<forall>i < length ps. ps ! i =
       \<lparr>tune_name = ragged_popular_tree POPULAR_NAME_XPATH ! i,
        tune_id = ragged_popular_tree POPULAR_ID_XPATH ! i,
        tune_type = ragged_popular_tree POPULAR_TYPE_XPATH ! i\<rparr>"
    by blast
  from zip_truncates [where n = ragged_net and fromstring = example_fromstring
      and query = "''reel''" and stree = ragged_search_tree] s
  obtain ss where ss: "fst (get_search_tunes example_fromstring ''reel'' ragged_net) = Inr ss"
    "length ss = Min {length (ragged_search_tree SEARCH_NAME_XPATH),
       length (ragged_search_tree SEARCH_ID_XPATH), length (ragged_search_tree SEARCH_TYPE_XPATH)}"
    "\<forall>i < length ss. ss ! i =
       \<lparr>tune_name = ragged_search_tree SEARCH_NAME_XPATH ! i,
        tune_id = ragged_search_tree SEARCH_ID_XPATH ! i,
        tune_type = strip_chars [CHR 0x0A] (ragged_search_tree SEARCH_TYPE_XPATH ! i)\<rparr>"
    by blast
  have lp: "length ps = 1" using ps(2) by (simp add: example_trees)
  have ls: "length ss = 1" using ss(2) by (simp add: example_trees)
  have "ps ! 0 = \<lparr>tune_name = ''The Kesh'', tune_id = ''55'', tune_type = ''reel''\<rparr>"
    using ps(3) lp by (simp add: example_trees)
  with lp have "ps = [\<lparr>tune_name = ''The Kesh'', tune_id = ''55'', tune_type = ''reel''\<rparr>]"
    by (cases ps) auto
  moreover have "ss ! 0 = \<lparr>tune_name = ''Cooleys'', tune_id = ''50'', tune_type = ''reel''\<rparr>"
    using ss(3) ls by (simp add: example_trees strip_chars_def)
  with ls have "ss = [\<lparr>tune_name = ''Cooleys'', tune_id = ''50'', tune_type = ''reel''\<rparr>]"
    by (cases ss) auto
  ultimately show ?thesis using ps(1) ss(1) by simp
qed

text \<open>
  C1, as amended. When the three query results of a page that was fetched and parsed have
  the same length \<open>N\<close>, extraction returns \<open>N\<close> records in document order; the name and id
  of the \<open>i\<close>-th record are the \<open>i\<close>-th elements of the name and id results; its type is
  the \<open>i\<close>-th element of the type result for the popular page, and that element with the
  newlines at both ends removed for the search page.
\<close>

theorem equal_length_extraction:
  "(raise_for_status (responses n POPULAR_TUNES_EP) = Inr () \<and>
    fromstring (content (responses n POPULAR_TUNES_EP)) = Inr tree \<and>
    length (tree POPULAR_NAME_XPATH) = N \<and> length (tree POPULAR_ID_XPATH) = N \<and>
    length (tree POPULAR_TYPE_XPATH) = N \<longrightarrow>
      (\<exists>ps. fst (get_popular_tunes fromstring n) = Inr ps \<and> length ps = N \<and>
         (\<forall>i < N. tune_name (ps ! i) = tree POPULAR_NAME_XPATH ! i \<and>
            tune_id (ps ! i) = tree POPULAR_ID_XPATH ! i \<and>
            tune_type (ps ! i) = tree POPULAR_TYPE_XPATH ! i))) \<and>
   (raise_for_status (responses n (SEARCH_EP query)) = Inr () \<and>
    fromstring (content (responses n (SEARCH_EP query))) = Inr stree \<and>
    length (stree SEARCH_NAME_XPATH) = M \<and> length (stree SEARCH_ID_XPATH) = M \<and>
    length (stree SEARCH_TYPE_XPATH) = M \<longrightarrow>
      (\<exists>ss. fst (get_search_tunes fromstring query n) = Inr ss \<and> length ss = M \<and>
         (\<forall>i < M. tune_name (ss ! i) = stree SEARCH_NAME_XPATH ! i \<and>
            tune_id (ss ! i) = stree SEARCH_ID_XPATH ! i \<and>
            tune_type (ss ! i) = strip_chars [CHR 0x0A] (stree SEARCH_TYPE_XPATH ! i))))"
  by (simp add: get_popular_tunes_parsed get_search_tunes_parsed length_zip_tunes nth_zip_tunes)

theorem equal_length_extraction_witness:
  "(\<exists>ps. fst (get_popular_tunes example_fromstring example_net) = Inr ps \<and> length ps = 2 \<and>
      tune_name (ps ! 1) = ''Drowsy Maggie'' \<and> tune_id (ps ! 1) = ''27'' \<and>
      tune_type (ps ! 1) = ''reel'') \<and>
   (\<exists>ss. fst (get_search_tunes example_fromstring ''reel'' example_net) = Inr ss \<and>
      length ss = 2 \<and>
      tune_name (ss ! 1) = ''Drowsy Maggie'' \<and> tune_id (ss ! 1) = ''23'' \<and>
      tune_type (ss ! 1) = ''reel'')"
proof -
  have p: "raise_for_status (responses example_net POPULAR_TUNES_EP) = Inr () \<and>
      example_fromstring (content (responses example_net POPULAR_TUNES_EP)) = Inr popular_tree \<and>
      length (popular_tree POPULAR_NAME_XPATH) = 2 \<and> length (popular_tree POPULAR_ID_XPATH) = 2 \<and>
      length (popular_tree POPULAR_TYPE_XPATH) = 2"
    by (simp add: raise_for_status_def example_responses example_pages example_trees)
  have s: "raise_for_status (responses example_net (SEARCH_EP ''reel'')) = Inr () \<and>
      example_fromstring (content (responses example_net (SEARCH_EP ''reel''))) = Inr search_tree \<and>
      length (search_tree SEARCH_NAME_XPATH) = 2 \<and> length (search_tree SEARCH_ID_XPATH) = 2 \<and>
      length (search_tree SEARCH_TYPE_XPATH) = 2"
    by (simp add: raise_for_status_def example_responses example_pages example_trees)
  have one: "(1::nat) < 2" by simp
  from equal_length_extraction [where n = example_net and fromstring = example_fromstring
      and tree = popular_tree and N = 2] p
  obtain ps where ps: "fst (get_popular_tunes example_fromstring example_net) = Inr ps"
    "length ps = 2"
    "\<forall>i < 2. tune_name (ps ! i) = popular_tree POPULAR_NAME_XPATH ! i \<and>
       tune_id (ps ! i) = popular_tree POPULAR_ID_XPATH ! i \<and>
       tune_type (ps ! i) = popular_tree POPULAR_TYPE_XPATH ! i"
    by blast
  from equal_length_extraction [where n = example_net and fromstring = example_fromstring
      and query = "''reel''" and stree = search_tree and M = 2] s
  obtain ss where ss: "fst (get_search_tunes example_fromstring ''reel'' example_net) = Inr ss"
    "length ss = 2"
    "\<forall>i < 2. tune_name (ss ! i) = search_tree SEARCH_NAME_XPATH ! i \<and>
       tune_id (ss ! i) = search_tree SEARCH_ID_XPATH ! i \<and>
       tune_type (ss ! i) = strip_chars [CHR 0x0A] (search_tree SEARCH_TYPE_XPATH ! i)"
    by blast
  have "tune_name (ps ! 1) = ''Drowsy Maggie'' \<and> tune_id (ps ! 1) = ''27'' \<and>
      tune_type (ps ! 1) = ''reel''"
    using ps(3) [rule_format, OF one] by (simp add: example_trees)
  moreover have "tune_name (ss ! 1) = ''Drowsy Maggie'' \<and> tune_id (ss ! 1) = ''23'' \<and>
      tune_type (ss ! 1) = ''reel''"
    using ss(3) [rule_format, OF one] by (simp add: example_trees strip_chars_def)
  ultimately show ?thesis using ps(1,2) ss(1,2) by blast
qed

text \<open>
  C1 as stated fails for the search page: the type query yields a string with newlines
  around it, the record holds the string without them.
\<close>

theorem search_type_unstripped_counterexample:
  "raise_for_status (responses example_net (SEARCH_EP ''reel'')) = Inr () \<and>
   example_fromstring (content (responses example_net (SEARCH_EP ''reel''))) = Inr search_tree \<and>
   search_tree SEARCH_NAME_XPATH = [''Cooleys'', ''Drowsy Maggie''] \<and>
   search_tree SEARCH_ID_XPATH = [''50'', ''23''] \<and>
   search_tree SEARCH_TYPE_XPATH = [''\<newline>reel\<newline>'', ''\<newline>reel\<newline>''] \<and>
   fst (get_search_tunes example_fromstring ''reel'' example_net) =
     Inr [\<lparr>tune_name = ''Cooleys'', tune_id = ''50'', tune_type = ''reel''\<rparr>,
          \<lparr>tune_name = ''Drowsy Maggie'', tune_id = ''23'', tune_type = ''reel''\<rparr>] \<and>
   ''reel'' \<noteq> ''\<newline>reel\<newline>''"
  by (simp add: get_search_tunes_def requests_get_def raise_for_status_def example_responses
      example_pages example_trees zip_tunes_def strip_chars_def)

subsection \<open>Fetching\<close>




subsection \<open>Parsing a notation block\<close>

text \<open>
  The block of the specification's scenario: the three header lines fill id, meter and
  key; the whitespace around a value is stripped; and a block without header lines leaves
  the fields as they were.
\<close>

lemma scenario_B:
  "parse_setting ''X:1\<newline>M:4/4\<newline>K:Edor\<newline>A B c d|'' =
     Inr \<lparr>s_id = Some ''1'', s_meter = Some ''4/4'', s_key = Some ''Edor'',
          s_abc = ''X:1\<newline>M:4/4\<newline>K:Edor\<newline>A B c d|''\<rparr>"
  by (simp add: eval_simps del: split.simps(2))

lemma header_value_stripped:
  "parse_setting ''X: 1\<newline>M:4/4 \<newline>K: Edor'' =
     Inr \<lparr>s_id = Some ''1'', s_meter = Some ''4/4'', s_key = Some ''Edor'',
          s_abc = ''X: 1\<newline>M:4/4 \<newline>K: Edor''\<rparr>"
  by (simp add: eval_simps del: split.simps(2))

lemma no_header_no_field:
  assumes "\<forall>l \<in> set ls. hd (split CHR '':'' l) \<notin> {''X'', ''M'', ''K''}"
  shows "\<exists>s. scan_lines ls i m k abc = Inr s \<and> s_id s = i \<and> s_meter s = m \<and> s_key s = k"
  using assms by (induction ls arbitrary: abc) (auto simp: Let_def)

text \<open>
  C2. A header line sets its field to the text after the colon, stripped. The code takes
  the second element of \<^verbatim>\<open>line.split(':')\<close>, so a value that itself holds a colon is cut
  at that colon: the key line \<^verbatim>\<open>K:D % capo:2\<close> gives the key \<^verbatim>\<open>D % capo\<close>.
\<close>

theorem header_value_cut_at_second_colon:
  "parse_setting ''X:1\<newline>M:4/4\<newline>K:D % capo:2\<newline>A B c d|'' =
     Inr \<lparr>s_id = Some ''1'', s_meter = Some ''4/4'', s_key = Some ''D % capo'',
          s_abc = ''X:1\<newline>M:4/4\<newline>K:D % capo:2\<newline>A B c d|''\<rparr>"
  by (simp add: eval_simps del: split.simps(2))

lemma scan_lines_abc:
  "scan_lines ls i m k abc = Inr s \<Longrightarrow>
     s_abc s = join [CHR 0x0A] (abc @ filter (\<lambda>l. l \<noteq> []) ls)"
proof (induction ls arbitrary: i m k abc)
  case Nil
  then show ?case by auto
next
  case (Cons line rest)
  then show ?case
    by (auto simp: Let_def split: if_splits sum.splits)
qed

text \<open>
  C6, as amended. When a block is parsed, the notation is the non-empty lines of the
  block joined by newlines: split again, it gives exactly the non-empty lines, unmodified
  and in order (when there is one), and so holds every line headed \<^verbatim>\<open>X\<close>, \<^verbatim>\<open>M\<close> or
  \<^verbatim>\<open>K\<close>.
\<close>

theorem abc_keeps_nonempty_lines:
  assumes "parse_setting block = Inr s"
  shows "s_abc s = join [CHR 0x0A] (filter (\<lambda>l. l \<noteq> []) (split (CHR 0x0A) block)) \<and>
    (filter (\<lambda>l. l \<noteq> []) (split (CHR 0x0A) block) \<noteq> [] \<longrightarrow>
       split (CHR 0x0A) (s_abc s) = filter (\<lambda>l. l \<noteq> []) (split (CHR 0x0A) block)) \<and>
    (\<forall>l \<in> set (split (CHR 0x0A) block).
       hd (split CHR '':'' l) \<in> {''X'', ''M'', ''K''} \<longrightarrow> l \<in> set (split (CHR 0x0A) (s_abc s)))"
proof -
  let ?ls = "filter (\<lambda>l. l \<noteq> []) (split (CHR 0x0A) block)"
  have abc: "s_abc s = join [CHR 0x0A] ?ls"
    using scan_lines_abc [of "split (CHR 0x0A) block" None None None "[]" s] assms
    by (simp add: parse_setting_def)
  have nosep: "\<forall>l \<in> set ?ls. CHR 0x0A \<notin> set l"
    using split_lines_no_sep by fastforce
  have rt: "?ls \<noteq> [] \<Longrightarrow> split (CHR 0x0A) (s_abc s) = ?ls"
    using split_join [OF _ nosep] abc by simp
  have hdr: "l \<in> set (split (CHR 0x0A) (s_abc s))"
    if "l \<in> set (split (CHR 0x0A) block)" "hd (split CHR '':'' l) \<in> {''X'', ''M'', ''K''}" for l
  proof -
    from that(2) have "l \<noteq> []" by auto
    with that(1) have "l \<in> set ?ls" by simp
    then have "?ls \<noteq> []" by (metis empty_iff empty_set)
    with rt \<open>l \<in> set ?ls\<close> show ?thesis by simp
  qed
  from abc rt hdr show ?thesis by blast
qed

theorem abc_keeps_nonempty_lines_witness:
  "parse_setting (''X:1'' @ [CHR 0x0A, CHR 0x0A] @ ''A B c d|'') =
     Inr \<lparr>s_id = Some ''1'', s_meter = None, s_key = None,
          s_abc = ''X:1'' @ [CHR 0x0A] @ ''A B c d|''\<rparr> \<and>
   split (CHR 0x0A) (''X:1'' @ [CHR 0x0A] @ ''A B c d|'') = [''X:1'', ''A B c d|''] \<and>
   ''X:1'' \<in> set (split (CHR 0x0A) (''X:1'' @ [CHR 0x0A] @ ''A B c d|''))"
proof -
  have p: "parse_setting (''X:1'' @ [CHR 0x0A, CHR 0x0A] @ ''A B c d|'') =
     Inr \<lparr>s_id = Some ''1'', s_meter = None, s_key = None,
          s_abc = ''X:1'' @ [CHR 0x0A] @ ''A B c d|''\<rparr>"
    by (simp add: eval_simps del: split.simps(2))
  from abc_keeps_nonempty_lines [OF p] show ?thesis
    using p by simp
qed

text \<open>
  C6 as stated fails for an empty line: it is a line of the block and not a line of the
  notation.
\<close>

theorem empty_line_dropped_counterexample:
  "parse_setting (''X:1'' @ [CHR 0x0A, CHR 0x0A] @ ''A B c d|'') =
     Inr \<lparr>s_id = Some ''1'', s_meter = None, s_key = None,
          s_abc = ''X:1'' @ [CHR 0x0A] @ ''A B c d|''\<rparr> \<and>
   [] \<in> set (split (CHR 0x0A) (''X:1'' @ [CHR 0x0A, CHR 0x0A] @ ''A B c d|'')) \<and>
   [] \<notin> set (split (CHR 0x0A) (''X:1'' @ [CHR 0x0A] @ ''A B c d|''))"
  by (simp add: eval_simps del: split.simps(2))

text \<open>
  For a page that was fetched and parsed, the two extractions of tunes return.
\<close>

lemma extraction_of_tunes_returns:
  "raise_for_status (responses n POPULAR_TUNES_EP) = Inr () \<Longrightarrow>
     fromstring (content (responses n POPULAR_TUNES_EP)) = Inr tree \<Longrightarrow>
     \<exists>ps. fst (get_popular_tunes fromstring n) = Inr ps"
  "raise_for_status (responses n (SEARCH_EP query)) = Inr () \<Longrightarrow>
     fromstring (content (responses n (SEARCH_EP query))) = Inr tree \<Longrightarrow>
     \<exists>ss. fst (get_search_tunes fromstring query n) = Inr ss"
  by (simp_all add: get_popular_tunes_parsed get_search_tunes_parsed)

text \<open>
  C8. Extraction returns normally on every document. For the settings it does not: a line
  that is exactly \<^verbatim>\<open>X\<close>, \<^verbatim>\<open>M\<close> or \<^verbatim>\<open>K\<close>, with no colon, makes \<^verbatim>\<open>ls[1]\<close> raise
  \<^verbatim>\<open>IndexError\<close>, and \<^verbatim>\<open>get_tune_settings\<close> raises with it.
\<close>

theorem colonless_header_raises:
  "raise_for_status (responses colonless_net (TUNES_EP ''23'')) = Inr () \<and>
   example_fromstring (content (responses colonless_net (TUNES_EP ''23''))) = Inr colonless_tree \<and>
   colonless_tree BASE_SETTING_XPATH = [''X:1\<newline>K\<newline>A B c d|''] \<and>
   parse_setting ''X:1\<newline>K\<newline>A B c d|'' = Inl IndexError \<and>
   fst (get_tune_settings example_fromstring ''23'' colonless_net) = Inl IndexError"
  by (simp add: get_tune_settings_def requests_get_def raise_for_status_def example_responses
      example_pages example_trees eval_simps del: split.simps(2))

subsection \<open>Selection\<close>

lemma rofi_output:
  "split CHR '':'' (show_int k @ CHR '':'' # text) = show_int k # split CHR '':'' text"
  by (simp add: split_append_sep colon_not_in_show_int)

lemma py_index_in_range:
  "0 \<le> k \<Longrightarrow> k < int (length xs) \<Longrightarrow> py_index xs k = Inr (xs ! nat k)"
  by (simp add: py_index_def)

lemma py_index_beyond: "int (length xs) \<le> k \<Longrightarrow> py_index xs k = Inl IndexError"
  by (simp add: py_index_def)

lemma select_tune_reply:
  assumes "returncode rofi = 0" and "stdout rofi = show_int k @ CHR '':'' # text"
  shows "select_tune tunes rofi =
     (if k < 0 then Inl (SearchException (hd (split CHR '':'' text))) else py_index tunes k)"
proof -
  obtain w ws where "split CHR '':'' text = w # ws"
    using split_not_Nil [of "CHR '':''" "text"] by (cases "split CHR '':'' text") auto
  then show ?thesis
    using assms by (simp add: select_tune_def rofi_output py_int_show_int py_index_def)
qed

lemma select_setting_reply:
  assumes "returncode rofi = 0" and "stdout rofi = show_int k @ CHR '':'' # text"
  shows "select_setting settings rofi = (if k < 0 then Inl ValueError else py_index settings k)"
  using assms by (simp add: select_setting_def rofi_output py_int_show_int)

text \<open>
  C3. For a reply \<^verbatim>\<open>k:text\<close> with exit code zero, \<^verbatim>\<open>select_tune\<close> and
  \<^verbatim>\<open>select_setting\<close> return the candidate at index \<open>k\<close> when \<open>k\<close> is within the list,
  raise \<^verbatim>\<open>IndexError\<close> when \<open>k\<close> is at or beyond its length, and raise without reading
  the list when \<open>k\<close> is negative (\<^verbatim>\<open>SearchException\<close> for a tune, \<^verbatim>\<open>ValueError\<close> for a
  setting).
\<close>

theorem selection_by_index:
  assumes "returncode rofi = 0" and "stdout rofi = show_int k @ CHR '':'' # text"
  shows "(0 \<le> k \<and> k < int (length tunes) \<longrightarrow> select_tune tunes rofi = Inr (tunes ! nat k)) \<and>
    (0 \<le> k \<and> k < int (length settings) \<longrightarrow>
       select_setting settings rofi = Inr (settings ! nat k)) \<and>
    (int (length tunes) \<le> k \<longrightarrow> select_tune tunes rofi = Inl IndexError) \<and>
    (int (length settings) \<le> k \<longrightarrow> select_setting settings rofi = Inl IndexError) \<and>
    (k < 0 \<longrightarrow>
       select_tune tunes rofi = Inl (SearchException (hd (split CHR '':'' text))) \<and>
       select_setting settings rofi = Inl ValueError)"
  using assms
  by (simp add: select_tune_reply [OF assms] select_setting_reply [OF assms]
      py_index_in_range py_index_beyond)

theorem selection_by_index_witness:
  "select_tune two_tunes (reply ''1:Drowsy Maggie'') =
     Inr \<lparr>tune_name = ''Drowsy Maggie'', tune_id = ''23'', tune_type = ''reel''\<rparr> \<and>
   select_setting two_settings (reply ''1:Drowsy Maggie'') =
     Inr \<lparr>s_id = Some ''2'', s_meter = Some ''4/4'', s_key = Some ''Edor'', s_abc = ''X:2''\<rparr> \<and>
   select_tune two_tunes (reply ''5:Drowsy Maggie'') = Inl IndexError \<and>
   select_setting two_settings (reply ''5:Drowsy Maggie'') = Inl IndexError \<and>
   select_tune two_tunes (reply ''-1:kesh'') = Inl (SearchException ''kesh'') \<and>
   select_setting two_settings (reply ''-1:kesh'') = Inl ValueError"
proof -
  have rc: "returncode (reply out) = 0" for out by (simp add: reply_def)
  have o1: "stdout (reply ''1:Drowsy Maggie'') = show_int 1 @ CHR '':'' # ''Drowsy Maggie''"
    and o5: "stdout (reply ''5:Drowsy Maggie'') = show_int 5 @ CHR '':'' # ''Drowsy Maggie''"
    and om: "stdout (reply ''-1:kesh'') = show_int (- 1) @ CHR '':'' # ''kesh''"
    by (simp_all add: reply_def show_int_examples)
  show ?thesis
    using selection_by_index [OF rc o1, of two_tunes two_settings]
      selection_by_index [OF rc o5, of two_tunes two_settings]
      selection_by_index [OF rc om, of two_tunes two_settings]
    by (simp add: two_tunes_def two_settings_def)
qed

text \<open>
  For a negative index \<^verbatim>\<open>select_tune\<close> raises \<^verbatim>\<open>SearchException\<close> with the second
  element of the split reply, which is the whole text when the text has no colon;
  \<^verbatim>\<open>select_setting\<close> raises \<^verbatim>\<open>ValueError\<close>; and the loop then fetches the search page of
  the query the exception carries.
\<close>

lemma requery_carries_first_field:
  assumes "returncode rofi = 0" and "stdout rofi = show_int k @ CHR '':'' # text" and "k < 0"
  shows "select_tune tunes rofi = Inl (SearchException (hd (split CHR '':'' text)))"
    and "CHR '':'' \<notin> set text \<Longrightarrow> select_tune tunes rofi = Inl (SearchException text)"
    and "select_setting settings rofi = Inl ValueError"
  using assms
  by (simp_all add: select_tune_reply [OF assms(1,2)] select_setting_reply [OF assms(1,2)]
      split_no_sep)

lemma requery_refetches:
  assumes "get_search_tunes fromstring query n = (Inr tunes, n')"
    and "select_tune tunes r = Inl (SearchException q)"
  shows "search_loop fromstring query (r # rs) n = search_loop fromstring q rs n'"
  using assms by simp

lemma example_search:
  assumes "responses n = responses example_net"
  shows "get_search_tunes example_fromstring q n =
     (Inr two_tunes, n\<lparr>requested := requested n @ [SEARCH_EP q]\<rparr>)"
  using assms
  by (simp add: get_search_tunes_def requests_get_def raise_for_status_def example_responses
      example_pages example_trees zip_tunes_def strip_chars_def two_tunes_def)

text \<open>
  C4. The exception carries the text after the colon as the new query. The code takes
  the second element of \<^verbatim>\<open>stdout.split(":")\<close>, so a typed text that itself holds a colon
  is cut at that colon: the reply \<^verbatim>\<open>-1:kesh: jig\<close> makes the next fetch search for
  \<^verbatim>\<open>kesh\<close>.
\<close>

theorem requery_cut_at_second_colon:
  "select_tune two_tunes (reply ''-1:kesh: jig'') = Inl (SearchException ''kesh'') \<and>
   requested (snd (snd (search_and_display example_fromstring ''reel'' [reply ''-1:kesh: jig'']
     example_net))) = [SEARCH_EP ''reel'', SEARCH_EP ''kesh'']"
proof -
  have o: "stdout (reply ''-1:kesh: jig'') = show_int (- 1) @ CHR '':'' # ''kesh: jig''"
    by (simp add: reply_def show_int_examples)
  have rc: "returncode (reply ''-1:kesh: jig'') = 0" by (simp add: reply_def)
  have st: "select_tune two_tunes (reply ''-1:kesh: jig'') = Inl (SearchException ''kesh'')"
    using requery_carries_first_field(1) [OF rc o, of two_tunes] by simp
  have r: "requested example_net = []" by (simp add: example_net_def)
  have l1: "search_loop example_fromstring ''reel'' [reply ''-1:kesh: jig''] example_net =
      (None, example_net\<lparr>requested := [SEARCH_EP ''reel'', SEARCH_EP ''kesh'']\<rparr>)"
    by (simp add: example_search st r)
  show ?thesis
    using st l1 by (simp add: search_and_display_def del: search_loop.simps)
qed

subsection \<open>Cancelling the picker\<close>

text \<open>
  What the loop does with one more reply: where it was waiting for the picker, a reply
  with an exit code other than zero ends it with that code; where it had selected a tune,
  it selects the same tune and leaves the new replies untaken.
\<close>

lemma loop_cancelled:
  assumes "returncode rofi \<noteq> 0"
  shows "search_loop fromstring q pre n = (None, n') \<Longrightarrow>
    search_loop fromstring q (pre @ rofi # rest) n =
      (Some (Inl (SystemExit (returncode rofi))), n')"
proof (induction pre arbitrary: q n)
  case Nil
  with assms show ?case
    by (auto simp: select_tune_def split: prod.splits sum.splits)
next
  case (Cons r rs)
  then show ?case
    by (auto split: prod.splits sum.splits error.splits)
qed

lemma loop_selected:
  "search_loop fromstring q pre n = (Some (Inr (tune, rs)), n') \<Longrightarrow>
    search_loop fromstring q (pre @ later) n = (Some (Inr (tune, rs @ later)), n')"
proof (induction pre arbitrary: q n)
  case Nil
  then show ?case by (auto split: prod.splits sum.splits)
next
  case (Cons r rs')
  then show ?case
    by (auto split: prod.splits sum.splits error.splits)
qed

text \<open>
  C7. When the picker exits with a code other than zero, \<^verbatim>\<open>select_tune\<close> and
  \<^verbatim>\<open>select_setting\<close> raise \<^verbatim>\<open>SystemExit\<close> with that very code and select nothing. For the
  whole program: after any replies \<open>pre\<close> that leave \<^verbatim>\<open>search_and_display\<close> waiting for
  the picker (at the first tune selection, at a tune selection after any number of new
  searches, or at the setting selection), a next run of the picker that exits with such a
  code ends the program with \<^verbatim>\<open>SystemExit\<close> of that code, with no further request and no
  process started, whatever replies would follow.
\<close>

theorem picker_exit_code_propagates:
  assumes "returncode rofi \<noteq> 0"
  shows "select_tune tunes rofi = Inl (SystemExit (returncode rofi)) \<and>
    select_setting settings rofi = Inl (SystemExit (returncode rofi)) \<and>
    (search_and_display fromstring query pre n = (None, effects, n') \<longrightarrow>
       search_and_display fromstring query (pre @ rofi # rest) n =
         (Some (Inl (SystemExit (returncode rofi))), [], n'))"
proof -
  have sel: "select_tune tunes rofi = Inl (SystemExit (returncode rofi))"
    "select_setting ss rofi = Inl (SystemExit (returncode rofi))" for ss
    using assms by (simp_all add: select_tune_def select_setting_def)
  have "search_and_display fromstring query (pre @ rofi # rest) n =
         (Some (Inl (SystemExit (returncode rofi))), [], n')"
    if blocked: "search_and_display fromstring query pre n = (None, effects, n')"
  proof (cases "search_loop fromstring query pre n")
    case (Pair res n1)
    show ?thesis
    proof (cases res)
      case None
      with Pair blocked have "n1 = n'" by (simp add: search_and_display_def)
      with None Pair loop_cancelled [OF assms, of fromstring query pre n n' rest]
      show ?thesis by (simp add: search_and_display_def del: search_loop.simps)
    next
      case (Some r)
      show ?thesis
      proof (cases r)
        case (Inl e)
        with Some Pair blocked show ?thesis by (simp add: search_and_display_def)
      next
        case (Inr sel')
        obtain tune rs where sel': "sel' = (tune, rs)" by (cases sel')
        from Pair Some Inr sel'
        have l: "search_loop fromstring query pre n = (Some (Inr (tune, rs)), n1)" by simp
        have l': "search_loop fromstring query (pre @ rofi # rest) n =
            (Some (Inr (tune, rs @ rofi # rest)), n1)"
          using loop_selected [OF l] .
        obtain st n2 where g: "get_tune_settings fromstring (tune_id tune) n1 = (st, n2)"
          by (cases "get_tune_settings fromstring (tune_id tune) n1")
        from blocked l g obtain settings' where
          s: "st = Inr settings'" and rs: "rs = []" and n2: "n2 = n'"
          by (auto simp: search_and_display_def split: sum.splits list.splits)
        from l' g s rs n2 sel(2) [of settings'] show ?thesis
          by (simp add: search_and_display_def del: search_loop.simps)
      qed
    qed
  qed
  with sel show ?thesis by blast
qed

lemma example_settings:
  assumes "responses n = responses example_net"
  shows "get_tune_settings example_fromstring ''23'' n =
     (Inr [\<lparr>s_id = Some ''1'', s_meter = Some ''4/4'', s_key = Some ''Edor'',
            s_abc = ''X:1\<newline>M:4/4\<newline>K:Edor\<newline>A B c d|''\<rparr>],
      n\<lparr>requested := requested n @ [TUNES_EP ''23'']\<rparr>)"
  using assms
  by (simp add: get_tune_settings_def requests_get_def raise_for_status_def example_responses
      example_pages example_trees eval_simps del: split.simps(2))

theorem picker_exit_code_propagates_witness:
  "returncode cancelled \<noteq> 0 \<and>
   select_tune two_tunes cancelled = Inl (SystemExit 1) \<and>
   select_setting two_settings cancelled = Inl (SystemExit 1) \<and>
   search_and_display example_fromstring ''reel'' [cancelled] example_net =
     (Some (Inl (SystemExit 1)), [], example_net\<lparr>requested := [SEARCH_EP ''reel'']\<rparr>) \<and>
   search_and_display example_fromstring ''reel'' [reply ''-1:kesh'', cancelled] example_net =
     (Some (Inl (SystemExit 1)), [],
      example_net\<lparr>requested := [SEARCH_EP ''reel'', SEARCH_EP ''kesh'']\<rparr>) \<and>
   search_and_display example_fromstring ''reel'' [reply ''1:Drowsy Maggie'', cancelled]
       example_net =
     (Some (Inl (SystemExit 1)), [],
      example_net\<lparr>requested := [SEARCH_EP ''reel'', TUNES_EP ''23'']\<rparr>)"
proof -
  have rc: "returncode cancelled \<noteq> 0" "returncode cancelled = 1" by (simp_all add: cancelled_def)
  have r: "requested example_net = []" by (simp add: example_net_def)
  have rc0: "returncode (reply out) = 0" for out by (simp add: reply_def)
  have om: "stdout (reply ''-1:kesh'') = show_int (- 1) @ CHR '':'' # ''kesh''"
    and o1: "stdout (reply ''1:Drowsy Maggie'') = show_int 1 @ CHR '':'' # ''Drowsy Maggie''"
    by (simp_all add: reply_def show_int_examples)
  have sm: "select_tune two_tunes (reply ''-1:kesh'') = Inl (SearchException ''kesh'')"
    using select_tune_reply [OF rc0 om, of two_tunes] by simp
  have s1: "select_tune two_tunes (reply ''1:Drowsy Maggie'') =
      Inr \<lparr>tune_name = ''Drowsy Maggie'', tune_id = ''23'', tune_type = ''reel''\<rparr>"
    using select_tune_reply [OF rc0 o1, of two_tunes] by (simp add: py_index_def two_tunes_def)
  have b0: "search_and_display example_fromstring ''reel'' [] example_net =
      (None, [], example_net\<lparr>requested := [SEARCH_EP ''reel'']\<rparr>)"
    by (simp add: search_and_display_def example_search r)
  have b1: "search_and_display example_fromstring ''reel'' [reply ''-1:kesh''] example_net =
      (None, [], example_net\<lparr>requested := [SEARCH_EP ''reel'', SEARCH_EP ''kesh'']\<rparr>)"
    by (simp add: search_and_display_def example_search sm r)
  have b2: "search_and_display example_fromstring ''reel'' [reply ''1:Drowsy Maggie'']
        example_net =
      (None, [], example_net\<lparr>requested := [SEARCH_EP ''reel'', TUNES_EP ''23'']\<rparr>)"
    by (simp add: search_and_display_def example_search s1 example_settings r)
  from picker_exit_code_propagates [OF rc(1), of two_tunes two_settings example_fromstring
      "''reel''" "[]" example_net "[]" _ "[]"] b0
    picker_exit_code_propagates [OF rc(1), of two_tunes two_settings example_fromstring
      "''reel''" "[reply ''-1:kesh'']" example_net "[]" _ "[]"] b1
    picker_exit_code_propagates [OF rc(1), of two_tunes two_settings example_fromstring
      "''reel''" "[reply ''1:Drowsy Maggie'']" example_net "[]" _ "[]"] b2
  show ?thesis using rc by simp
qed

subsection \<open>Display\<close>

text \<open>
  The encoding: a code point below 128 is one byte, one from 128 to 255 is two.
\<close>

lemma encode_utf8_Nil_iff: "encode_utf8 abc = [] \<longleftrightarrow> abc = []"
  by (cases abc) (auto simp: encode_utf8_def Let_def)

lemma encode_utf8_ascii:
  "\<forall>c \<in> set s. of_char c < (128::nat) \<Longrightarrow> encode_utf8 s = map of_char s"
  by (induction s) (auto simp: encode_utf8_def)

lemma encode_utf8_Cons:
  "encode_utf8 (c # s) =
     (if of_char c < (128::nat) then [of_char c]
      else [192 + of_char c div 64, 128 + of_char c mod 64]) @ encode_utf8 s"
  by (simp add: encode_utf8_def Let_def)

text \<open>
  C9, as amended. \<^verbatim>\<open>display_abc\<close> does exactly this, in this order: it starts the viewer,
  then the ps-to-pdf converter with its output on the viewer's input, then the abc-to-ps
  converter with its output on that converter's input; it writes the notation, encoded in
  UTF-8, to the input of the abc-to-ps converter (nothing when the notation is empty),
  closes that input and waits for that converter; it closes the input of the ps-to-pdf
  converter and waits for it; and last it closes the viewer's input.
\<close>

theorem display_abc_effects:
  "display_abc abc log0 =
     log0 @
     [Start PDF_VIEWER_CMD PIPE Inherited,
      Start PS2PDF_CMD PIPE (Stdin_of (length (filter is_start log0))),
      Start ABC2PS_CMD PIPE (Stdin_of (length (filter is_start log0) + 1))] @
     (if abc = [] then [] else [Write (length (filter is_start log0) + 2) (encode_utf8 abc)]) @
     [Close_stdin (length (filter is_start log0) + 2),
      Wait (length (filter is_start log0) + 2),
      Close_stdin (length (filter is_start log0) + 1),
      Wait (length (filter is_start log0) + 1),
      Close_stdin (length (filter is_start log0))]"
  by (simp add: display_abc_def Popen_def communicate_def close_stdin_def encode_utf8_Nil_iff)

theorem display_abc_effects_witness:
  "display_abc (''T:S'' @ [CHR 0xED] @ '' Bheag'') [] =
     [Start [''zathura'', ''-''] PIPE Inherited,
      Start [''ps2pdf'', ''-'', ''-''] PIPE (Stdin_of 0),
      Start [''abcm2ps'', ''-'', ''-O'', ''-''] PIPE (Stdin_of 1),
      Write 2 [84, 58, 83, 195, 173, 32, 66, 104, 101, 97, 103],
      Close_stdin 2, Wait 2, Close_stdin 1, Wait 1, Close_stdin 0] \<and>
   display_abc [] [] =
     [Start [''zathura'', ''-''] PIPE Inherited,
      Start [''ps2pdf'', ''-'', ''-''] PIPE (Stdin_of 0),
      Start [''abcm2ps'', ''-'', ''-O'', ''-''] PIPE (Stdin_of 1),
      Close_stdin 2, Wait 2, Close_stdin 1, Wait 1, Close_stdin 0]"
  using display_abc_effects [of "''T:S'' @ [CHR 0xED] @ '' Bheag''" "[]"]
    display_abc_effects [of "[]" "[]"]
  by (simp add: PDF_VIEWER_CMD_def PS2PDF_CMD_def ABC2PS_CMD_def encode_utf8_def)

text \<open>
  C9 as stated fails: between the two waits the input of the second converter is closed,
  which the sequence of the claim does not have.
\<close>

theorem second_input_closed_counterexample:
  "display_abc ''X:1'' [] =
     [Start PDF_VIEWER_CMD PIPE Inherited,
      Start PS2PDF_CMD PIPE (Stdin_of 0),
      Start ABC2PS_CMD PIPE (Stdin_of 1),
      Write 2 [88, 58, 49],
      Close_stdin 2, Wait 2, Close_stdin 1, Wait 1, Close_stdin 0] \<and>
   display_abc ''X:1'' [] \<noteq>
     [Start PDF_VIEWER_CMD PIPE Inherited,
      Start PS2PDF_CMD PIPE (Stdin_of 0),
      Start ABC2PS_CMD PIPE (Stdin_of 1),
      Write 2 [88, 58, 49],
      Close_stdin 2, Wait 2, Wait 1, Close_stdin 0]"
  by (simp add: display_abc_def Popen_def communicate_def close_stdin_def encode_utf8_def)

end
